theory Spec2Isabelle
  imports Complex_Main "HOL-Library.Product_Lexorder"
begin

section \<open>Python values used by \<^verbatim>\<open>stock_report.py\<close>\<close>

text \<open>
  The script is a single Python module. Its functions are embedded one by one, under the
  names they have in the source. What Python raises is a value of \<open>py_error\<close>, and a
  function that can raise returns \<open>py_error + 'a\<close> with the error on the left.
  \<open>ExternalError\<close> stands for whatever a collaborator raises (the HTTP request, the JSON or
  XML decoder, the holdings file).
\<close>

datatype py_error = IndexError | ZeroDivisionError | OverflowError | TypeError | ExternalError

subsection \<open>Floats\<close>

text \<open>
  A Python \<^verbatim>\<open>float\<close> is an IEEE 754 binary64 number. A finite one is a real number
  \<open>m * 2 ^ e\<close> with \<open>\<bar>m\<bar> < 2 ^ 53\<close> and \<open>- 1074 \<le> e\<close>, and \<^verbatim>\<open>+\<close>, \<^verbatim>\<open>-\<close>,
  \<^verbatim>\<open>*\<close>, \<^verbatim>\<open>/\<close> return the exact result rounded to the nearest such number, ties going to
  the even significand. \<open>round_double\<close> is that rounding. Infinities and NaN are not
  values of the model: it covers runs in which every number stays finite.
\<close>

type_synonym pyfloat = real

fun bitlen :: "nat \<Rightarrow> nat" where
  "bitlen n = (if n = 0 then 0 else Suc (bitlen (n div 2)))"

declare bitlen.simps [simp del]

definition pow2 :: "int \<Rightarrow> real" where
  "pow2 e = (if 0 \<le> e then 2 ^ nat e else 1 / 2 ^ nat (- e))"

definition floor_log2 :: "real \<Rightarrow> int" where
  \<comment> \<open>for \<open>0 < a\<close>: the \<open>k\<close> with \<open>2 ^ k \<le> a < 2 ^ (k + 1)\<close>\<close>
  "floor_log2 a =
     (if 1 \<le> a then int (bitlen (nat \<lfloor>a\<rfloor>)) - 1
      else - int (bitlen (nat (\<lceil>1 / a\<rceil> - 1))))"

definition round_half_even :: "real \<Rightarrow> int" where
  "round_half_even q =
     (if q - of_int \<lfloor>q\<rfloor> < 1 / 2 then \<lfloor>q\<rfloor>
      else if 1 / 2 < q - of_int \<lfloor>q\<rfloor> then \<lfloor>q\<rfloor> + 1
      else if even \<lfloor>q\<rfloor> then \<lfloor>q\<rfloor> else \<lfloor>q\<rfloor> + 1)"

definition round_at :: "int \<Rightarrow> real \<Rightarrow> real" where
  \<comment> \<open>the multiple of \<open>2 ^ e\<close> nearest to \<open>a\<close>\<close>
  "round_at e a = of_int (round_half_even (a / pow2 e)) * pow2 e"

definition round_double :: "real \<Rightarrow> pyfloat" where
  "round_double x =
     (if x = 0 then 0
      else sgn x * round_at (max (floor_log2 \<bar>x\<bar> - 52) (- 1074)) \<bar>x\<bar>)"

definition fadd :: "pyfloat \<Rightarrow> pyfloat \<Rightarrow> pyfloat" where
  "fadd x y = round_double (x + y)"

definition fsub :: "pyfloat \<Rightarrow> pyfloat \<Rightarrow> pyfloat" where
  "fsub x y = round_double (x - y)"

definition fmul :: "pyfloat \<Rightarrow> pyfloat \<Rightarrow> pyfloat" where
  "fmul x y = round_double (x * y)"

definition fquot :: "pyfloat \<Rightarrow> pyfloat \<Rightarrow> pyfloat" where
  "fquot x y = round_double (x / y)"

definition fdiv :: "pyfloat \<Rightarrow> pyfloat \<Rightarrow> py_error + pyfloat" where
  \<comment> \<open>\<^verbatim>\<open>x / y\<close>: a zero divisor raises\<close>
  "fdiv x y = (if y = 0 then Inl ZeroDivisionError else Inr (fquot x y))"

definition representable :: "real \<Rightarrow> bool" where
  \<comment> \<open>the real number is itself a double, so that rounding leaves it alone\<close>
  "representable x = (round_double x = x)"

subsection \<open>Strings and lists\<close>

text \<open>
  A \<^verbatim>\<open>str\<close> is modelled by its UTF-8 bytes. \<^verbatim>\<open>str.strip()\<close> removes leading and
  trailing white space; the model removes the white space of the ASCII range
  (\<^verbatim>\<open>\t \n \v \f \r\<close>, the separators 28 to 31 and the blank).
\<close>

definition py_isspace :: "char \<Rightarrow> bool" where
  "py_isspace c =
     ((9 \<le> (of_char c :: nat) \<and> (of_char c :: nat) \<le> 13)
      \<or> (28 \<le> (of_char c :: nat) \<and> (of_char c :: nat) \<le> 32))"

definition py_strip :: "string \<Rightarrow> string" where
  "py_strip s = rev (dropWhile py_isspace (rev (dropWhile py_isspace s)))"

definition py_index :: "'a list \<Rightarrow> int \<Rightarrow> py_error + 'a" where
  \<comment> \<open>\<^verbatim>\<open>xs[i]\<close>: an index below zero counts from the end of the list\<close>
  "py_index xs i =
     (if 0 \<le> i \<and> i < int (length xs) then Inr (xs ! nat i)
      else if i < 0 \<and> - int (length xs) \<le> i then Inr (xs ! nat (int (length xs) + i))
      else Inl IndexError)"

section \<open>The holdings ledger\<close>

text \<open>
  A row of \<^verbatim>\<open>data/holdings.csv\<close> as \<^verbatim>\<open>read_holdings\<close> returns it: the dictionary
  with the keys \<^verbatim>\<open>code\<close>, \<^verbatim>\<open>lots\<close> and \<^verbatim>\<open>avg_cost\<close>.
\<close>

record holding =
  h_code :: string
  h_lots :: pyfloat
  h_avg_cost :: pyfloat



section \<open>Dates\<close>

text \<open>
  A \<^verbatim>\<open>datetime.date\<close> is its triple of year, month and day; Python compares dates in
  that order, which is the lexicographic order of the triple. The script builds dates in
  three ways only: \<^verbatim>\<open>replace(day=1)\<close>, the subtraction of one day, and the parsing of a
  row of the exchange. Year 1 is \<^verbatim>\<open>MINYEAR\<close>: stepping below its first day raises.
\<close>

type_synonym date = "nat \<times> nat \<times> nat"

definition is_leap :: "nat \<Rightarrow> bool" where
  "is_leap y = (y mod 4 = 0 \<and> (y mod 100 \<noteq> 0 \<or> y mod 400 = 0))"

definition days_in_month :: "nat \<Rightarrow> nat \<Rightarrow> nat" where
  "days_in_month y m =
     (if m = 2 then (if is_leap y then 29 else 28)
      else if m = 4 \<or> m = 6 \<or> m = 9 \<or> m = 11 then 30 else 31)"

definition replace_day_1 :: "date \<Rightarrow> date" where
  "replace_day_1 d = (case d of (y, m, _) \<Rightarrow> (y, m, 1))"

definition minus_one_day :: "date \<Rightarrow> py_error + date" where
  "minus_one_day d =
     (case d of (y, m, dd) \<Rightarrow>
        if 1 < dd then Inr (y, m, dd - 1)
        else if 1 < m then Inr (y, m - 1, days_in_month y (m - 1))
        else if 1 < y then Inr (y - 1, 12, 31)
        else Inl OverflowError)"

definition prev_month :: "date \<Rightarrow> py_error + date" where
  \<comment> \<open>\<^verbatim>\<open>(target_date.replace(day=1) - dt.timedelta(days=1)).replace(day=1)\<close>\<close>
  "prev_month target =
     (case minus_one_day (replace_day_1 target) of
        Inl e \<Rightarrow> Inl e
      | Inr d \<Rightarrow> Inr (replace_day_1 d))"

section \<open>The world outside the script\<close>

text \<open>
  What the script reads from outside is an \<open>env\<close>: the holdings file as
  \<^verbatim>\<open>read_holdings\<close> parses it, today's date, what the month query of the first exchange
  answers for a stock number, a year and a month, the records of the CSV table of the second
  exchange, the news feed, and the builtin \<^verbatim>\<open>float\<close> on strings (\<open>None\<close> for
  \<^verbatim>\<open>ValueError\<close>). A request is a function of its arguments. Each call that the claims
  count is written down as an \<open>event\<close>, in the order of the calls.
\<close>

record twse_row =
  r_date :: "date option"
  r_close :: "pyfloat option"
  r_change :: "pyfloat option"

record twse_month =
  m_name :: "string option"
  m_rows :: "twse_row list"

record news_item =
  n_title :: string
  n_link :: string
  n_pub :: string
  n_source :: string

datatype event =
  TwseRequest string nat nat
  | TpexLookup string
  | NewsRequest string "string option"

record env =
  py_float :: "string \<Rightarrow> pyfloat option"
  today :: date
  read_holdings :: "py_error + holding list"
  twse_api :: "string \<Rightarrow> nat \<Rightarrow> nat \<Rightarrow> py_error + twse_month option"
  tpex_csv :: "py_error + string list list"
  fetch_google_news :: "string \<Rightarrow> string option \<Rightarrow> py_error + news_item list"

definition parse_float :: "env \<Rightarrow> string \<Rightarrow> pyfloat option" where
  "parse_float env s =
     (if filter (\<lambda>c. c \<noteq> CHR '','') (py_strip s) \<in> {''--'', ''-'', ''''} then None
      else py_float env (filter (\<lambda>c. c \<noteq> CHR '','') (py_strip s)))"

section \<open>The first exchange: a month of daily rows\<close>

text \<open>
  \<^verbatim>\<open>fetch_twse_month(stock_no, target_date)\<close> asks for the month of the date: the URL
  holds \<^verbatim>\<open>strftime("%Y%m")\<close> and the stock number, nothing else of the date. The answer is
  \<open>None\<close> when the exchange does not say \<^verbatim>\<open>OK\<close>, and otherwise the name and the parsed
  rows.
\<close>

definition fetch_twse_month ::
  "env \<Rightarrow> string \<Rightarrow> date \<Rightarrow> py_error + (twse_month option \<times> event list)" where
  "fetch_twse_month env stock_no d =
     (case d of (y, m, _) \<Rightarrow>
        (case twse_api env stock_no y m of
           Inl e \<Rightarrow> Inl e
         | Inr month \<Rightarrow> Inr (month, [TwseRequest stock_no y m])))"

record twse_latest =
  l_source :: string
  l_name :: "string option"
  l_latest :: twse_row
  l_prev :: "twse_row option"

definition rows_upto :: "twse_row list \<Rightarrow> date \<Rightarrow> twse_row list" where
  \<comment> \<open>\<^verbatim>\<open>[r for r in month["rows"] if r["date"] and r["date"] <= target_date]\<close>\<close>
  "rows_upto rs target =
     filter (\<lambda>r. case r_date r of None \<Rightarrow> False | Some d \<Rightarrow> d \<le> target) rs"

definition latest_of :: "twse_month \<Rightarrow> twse_row list \<Rightarrow> twse_latest option" where
  \<comment> \<open>the end of \<^verbatim>\<open>fetch_twse_latest\<close>: no row, or the rows sorted by date\<close>
  "latest_of month rows =
     (if rows = [] then None
      else Some \<lparr>l_source = ''TWSE'', l_name = m_name month,
                 l_latest = last (sort_key (\<lambda>r. the (r_date r)) rows),
                 l_prev = (if 2 \<le> length rows
                           then Some (sort_key (\<lambda>r. the (r_date r)) rows ! (length rows - 2))
                           else None)\<rparr>)"

definition fetch_twse_latest ::
  "env \<Rightarrow> string \<Rightarrow> date \<Rightarrow> py_error + (twse_latest option \<times> event list)" where
  "fetch_twse_latest env stock_no target =
     (case fetch_twse_month env stock_no target of
        Inl e \<Rightarrow> Inl e
      | Inr (month, ev) \<Rightarrow>
          (case month of
             None \<Rightarrow> Inr (None, ev)
           | Some m \<Rightarrow>
               if m_rows m = [] then Inr (None, ev)
               else if rows_upto (m_rows m) target = [] then
                 (case prev_month target of
                    Inl e \<Rightarrow> Inl e
                  | Inr pm \<Rightarrow>
                      (case fetch_twse_month env stock_no pm of
                         Inl e \<Rightarrow> Inl e
                       | Inr (month2, ev2) \<Rightarrow>
                           (case month2 of
                              None \<Rightarrow> Inr (None, ev @ ev2)
                            | Some m2 \<Rightarrow>
                                if m_rows m2 = [] then Inr (None, ev @ ev2)
                                else Inr (latest_of m2 (rows_upto (m_rows m2) target),
                                          ev @ ev2))))
               else Inr (latest_of m (rows_upto (m_rows m) target), ev)))"

text \<open>
  Two readings of a month that the statements below use: the answer is missing or has no
  row at all, and the rows of the answer that carry a date on or before the target.
\<close>

definition month_empty :: "twse_month option \<Rightarrow> bool" where
  "month_empty month = (case month of None \<Rightarrow> True | Some mo \<Rightarrow> m_rows mo = [])"

definition month_rows_upto :: "twse_month option \<Rightarrow> date \<Rightarrow> twse_row list" where
  "month_rows_upto month target =
     (case month of None \<Rightarrow> [] | Some mo \<Rightarrow> rows_upto (m_rows mo) target)"

section \<open>The second exchange: one table for the whole market\<close>

text \<open>The column labels of the table, as the UTF-8 bytes of the four Chinese words.\<close>

definition LABEL_CODE :: string where
  "LABEL_CODE = [CHR 0xE4, CHR 0xBB, CHR 0xA3, CHR 0xE8, CHR 0x99, CHR 0x9F]"

definition LABEL_CLOSE :: string where
  "LABEL_CLOSE = [CHR 0xE6, CHR 0x94, CHR 0xB6, CHR 0xE7, CHR 0x9B, CHR 0xA4]"

definition LABEL_CHANGE :: string where
  "LABEL_CHANGE = [CHR 0xE6, CHR 0xBC, CHR 0xB2, CHR 0xE8, CHR 0xB7, CHR 0x8C]"

definition LABEL_NAME :: string where
  "LABEL_NAME = [CHR 0xE5, CHR 0x90, CHR 0x8D, CHR 0xE7, CHR 0xA8, CHR 0xB1]"

record tpex =
  tp_header :: "string list"
  tp_hmap :: "(string \<times> nat) list"
  tp_rows :: "string list list"

definition fetch_tpex_latest_all :: "env \<Rightarrow> py_error + tpex option" where
  \<comment> \<open>empty records are skipped; the first of the others is the header. The dictionary
      of labels is an association list with the columns from right to left: the lookup
      finds the last column of a repeated label, the one the comprehension keeps.\<close>
  "fetch_tpex_latest_all env =
     (case tpex_csv env of
        Inl e \<Rightarrow> Inl e
      | Inr records \<Rightarrow>
          (case filter (\<lambda>r. r \<noteq> []) records of
             [] \<Rightarrow> Inr None
           | header # rows \<Rightarrow>
               Inr (Some \<lparr>tp_header = header,
                          tp_hmap = rev (zip header [0..<length header]),
                          tp_rows = rows\<rparr>)))"

definition hmap_get :: "(string \<times> nat) list \<Rightarrow> string \<Rightarrow> int" where
  \<comment> \<open>\<^verbatim>\<open>hmap.get(label, -1)\<close>\<close>
  "hmap_get h label = (case map_of h label of None \<Rightarrow> - 1 | Some i \<Rightarrow> int i)"

fun scan_rows :: "int \<Rightarrow> string list list \<Rightarrow> string \<Rightarrow> py_error + string list option" where
  "scan_rows i [] code = Inr None"
| "scan_rows i (r # rs) code =
     (case py_index r i of
        Inl e \<Rightarrow> Inl e
      | Inr c \<Rightarrow> if c = code then Inr (Some r) else scan_rows i rs code)"

definition get_tpex_row :: "tpex option \<Rightarrow> string \<Rightarrow> py_error + string list option" where
  "get_tpex_row data code =
     (case data of
        None \<Rightarrow> Inr None
      | Some d \<Rightarrow> scan_rows (hmap_get (tp_hmap d) LABEL_CODE) (tp_rows d) code)"

definition parse_tpex_price ::
  "env \<Rightarrow> string list \<Rightarrow> (string \<times> nat) list \<Rightarrow>
   py_error + (pyfloat option \<times> pyfloat option \<times> string option)" where
  "parse_tpex_price env row hmap =
     (case py_index row (hmap_get hmap LABEL_CLOSE) of
        Inl e \<Rightarrow> Inl e
      | Inr close \<Rightarrow>
          (case py_index row (hmap_get hmap LABEL_CHANGE) of
             Inl e \<Rightarrow> Inl e
           | Inr change \<Rightarrow>
               if 0 \<le> hmap_get hmap LABEL_NAME then
                 (case py_index row (hmap_get hmap LABEL_NAME) of
                    Inl e \<Rightarrow> Inl e
                  | Inr name \<Rightarrow>
                      Inr (parse_float env close, parse_float env change, Some name))
               else Inr (parse_float env close, parse_float env change, None)))"

section \<open>The report\<close>

text \<open>
  \<^verbatim>\<open>generate_report\<close> is one function in the source. Its \<^verbatim>\<open>for h in holdings\<close> loop is
  \<open>report_loop\<close>, and the body of the loop is \<open>report_holding\<close>, made of three parts in
  the order of the source: \<open>resolve_price\<close> (the five variables \<^verbatim>\<open>source\<close>,
  \<^verbatim>\<open>name\<close>, \<^verbatim>\<open>close\<close>, \<^verbatim>\<open>change\<close>, \<^verbatim>\<open>price_date\<close> after the two lookups),
  \<open>day_pct_of\<close> (the percentage of the day) and the figures of the position.
  The rendering of the Markdown and HTML files comes after and is not modelled.
\<close>

record quote =
  q_source :: "string option"
  q_name :: "string option"
  q_close :: "pyfloat option"
  q_change :: "pyfloat option"
  q_date :: "date option"

definition lookup_tpex :: "env \<Rightarrow> tpex option \<Rightarrow> string \<Rightarrow> py_error + (quote \<times> event list)" where
  \<comment> \<open>the \<^verbatim>\<open>else\<close> branch: \<^verbatim>\<open>get_tpex_row\<close>, then \<^verbatim>\<open>parse_tpex_price\<close> on a row\<close>
  "lookup_tpex env tpex_all code =
     (case get_tpex_row tpex_all code of
        Inl e \<Rightarrow> Inl e
      | Inr row \<Rightarrow>
          (case row of
             None \<Rightarrow>
               Inr (\<lparr>q_source = None, q_name = None, q_close = None, q_change = None,
                     q_date = None\<rparr>, [TpexLookup code])
           | Some r \<Rightarrow>
               if r = [] then
                 Inr (\<lparr>q_source = None, q_name = None, q_close = None, q_change = None,
                       q_date = None\<rparr>, [TpexLookup code])
               else
                 (case tpex_all of
                    None \<Rightarrow> Inl TypeError
                  | Some data \<Rightarrow>
                      (case parse_tpex_price env r (tp_hmap data) of
                         Inl e \<Rightarrow> Inl e
                       | Inr (close, change, name) \<Rightarrow>
                           Inr (\<lparr>q_source = Some ''TPEx'', q_name = name, q_close = close,
                                 q_change = change, q_date = None\<rparr>, [TpexLookup code])))))"

definition resolve_price ::
  "env \<Rightarrow> tpex option \<Rightarrow> date \<Rightarrow> string \<Rightarrow> py_error + (quote \<times> event list)" where
  "resolve_price env tpex_all target code =
     (case fetch_twse_latest env code target of
        Inl e \<Rightarrow> Inl e
      | Inr (twse, ev) \<Rightarrow>
          (case twse of
             None \<Rightarrow>
               (case lookup_tpex env tpex_all code of
                  Inl e \<Rightarrow> Inl e
                | Inr (q, ev2) \<Rightarrow> Inr (q, ev @ ev2))
           | Some t \<Rightarrow>
               (case r_close (l_latest t) of
                  None \<Rightarrow>
                    (case lookup_tpex env tpex_all code of
                       Inl e \<Rightarrow> Inl e
                     | Inr (q, ev2) \<Rightarrow> Inr (q, ev @ ev2))
                | Some c \<Rightarrow>
                    Inr (\<lparr>q_source = Some ''TWSE'', q_name = l_name t, q_close = Some c,
                          q_change = r_change (l_latest t), q_date = r_date (l_latest t)\<rparr>,
                         ev))))"

definition day_pct_of :: "pyfloat \<Rightarrow> pyfloat option \<Rightarrow> py_error + pyfloat option" where
  "day_pct_of close change =
     (case change of
        None \<Rightarrow> Inr None
      | Some ch \<Rightarrow>
          if 0 < fsub close ch then
            (case fdiv ch (fsub close ch) of
               Inl e \<Rightarrow> Inl e
             | Inr x \<Rightarrow> Inr (Some (fmul x 100)))
          else Inr None)"

definition or_zero :: "pyfloat option \<Rightarrow> pyfloat" where
  \<comment> \<open>\<^verbatim>\<open>(change or 0.0)\<close>: \<^verbatim>\<open>None\<close> and zero are both false\<close>
  "or_zero change = (case change of None \<Rightarrow> 0 | Some ch \<Rightarrow> if ch = 0 then 0 else ch)"

definition or_dash :: "string option \<Rightarrow> string" where
  \<comment> \<open>\<^verbatim>\<open>source or "-"\<close>\<close>
  "or_dash source = (case source of None \<Rightarrow> ''-'' | Some s \<Rightarrow> if s = [] then ''-'' else s)"

record report_item =
  i_code :: string
  i_name :: "string option"
  i_source :: "string option"
  i_date :: "date option"
  i_close :: pyfloat
  i_change :: "pyfloat option"
  i_day_pct :: "pyfloat option"
  i_lots :: pyfloat
  i_avg_cost :: pyfloat
  i_market_value :: pyfloat
  i_cost :: pyfloat
  i_pnl :: pyfloat
  i_day_pnl :: pyfloat
  i_news :: "news_item list"

text \<open>
  An entry of \<^verbatim>\<open>items\<close>: the short dictionary with the key \<^verbatim>\<open>error\<close> (code, name,
  source, error), or the full one.
\<close>

datatype item = NoPrice string "string option" string string | Priced report_item

record totals =
  tot_market_value :: pyfloat
  tot_cost :: pyfloat
  tot_pnl :: pyfloat
  tot_day_pnl :: pyfloat

definition position_entry ::
  "holding \<Rightarrow> quote \<Rightarrow> pyfloat \<Rightarrow> pyfloat option \<Rightarrow> news_item list \<Rightarrow> report_item" where
  \<comment> \<open>the full dictionary, with \<^verbatim>\<open>shares = lots * 1000\<close> in each of the four figures\<close>
  "position_entry h q close day_pct news =
     \<lparr>i_code = h_code h, i_name = q_name q, i_source = q_source q, i_date = q_date q,
      i_close = close, i_change = q_change q, i_day_pct = day_pct, i_lots = h_lots h,
      i_avg_cost = h_avg_cost h,
      i_market_value = fmul close (fmul (h_lots h) 1000),
      i_cost = fmul (h_avg_cost h) (fmul (h_lots h) 1000),
      i_pnl = fmul (fsub close (h_avg_cost h)) (fmul (h_lots h) 1000),
      i_day_pnl = fmul (or_zero (q_change q)) (fmul (h_lots h) 1000),
      i_news = news\<rparr>"

definition zero_totals :: totals where
  "zero_totals = \<lparr>tot_market_value = 0, tot_cost = 0, tot_pnl = 0, tot_day_pnl = 0\<rparr>"

definition add_to_totals :: "totals \<Rightarrow> report_item \<Rightarrow> totals" where
  \<comment> \<open>the four \<^verbatim>\<open>totals[...] += ...\<close>\<close>
  "add_to_totals tot i =
     \<lparr>tot_market_value = fadd (tot_market_value tot) (i_market_value i),
      tot_cost = fadd (tot_cost tot) (i_cost i),
      tot_pnl = fadd (tot_pnl tot) (i_pnl i),
      tot_day_pnl = fadd (tot_day_pnl tot) (i_day_pnl i)\<rparr>"

definition report_holding ::
  "env \<Rightarrow> tpex option \<Rightarrow> date \<Rightarrow> totals \<Rightarrow> holding \<Rightarrow>
   py_error + (item \<times> totals \<times> event list)" where
  "report_holding env tpex_all target tot h =
     (case resolve_price env tpex_all target (h_code h) of
        Inl e \<Rightarrow> Inl e
      | Inr (q, ev) \<Rightarrow>
          (case q_close q of
             None \<Rightarrow>
               Inr (NoPrice (h_code h) (q_name q) (or_dash (q_source q)) ''No price data'',
                    tot, ev)
           | Some close \<Rightarrow>
               (case day_pct_of close (q_change q) of
                  Inl e \<Rightarrow> Inl e
                | Inr day_pct \<Rightarrow>
                    (case fetch_google_news env (h_code h) (q_name q) of
                       Inl e \<Rightarrow> Inl e
                     | Inr news \<Rightarrow>
                         Inr (Priced (position_entry h q close day_pct news),
                              add_to_totals tot (position_entry h q close day_pct news),
                              ev @ [NewsRequest (h_code h) (q_name q)])))))"

fun report_loop ::
  "env \<Rightarrow> tpex option \<Rightarrow> date \<Rightarrow> holding list \<Rightarrow> item list \<Rightarrow> totals \<Rightarrow> event list \<Rightarrow>
   py_error + (item list \<times> totals \<times> event list)" where
  "report_loop env tpex_all target [] items tot ev = Inr (items, tot, ev)"
| "report_loop env tpex_all target (h # hs) items tot ev =
     (case report_holding env tpex_all target tot h of
        Inl e \<Rightarrow> Inl e
      | Inr (it, tot', ev') \<Rightarrow>
          report_loop env tpex_all target hs (items @ [it]) tot' (ev @ ev'))"

definition item_date :: "item \<Rightarrow> date option" where
  \<comment> \<open>\<^verbatim>\<open>i.get("date")\<close>: the short dictionary has no such key\<close>
  "item_date it = (case it of NoPrice _ _ _ _ \<Rightarrow> None | Priced i \<Rightarrow> i_date i)"

fun item_dates :: "item list \<Rightarrow> date list" where
  "item_dates [] = []"
| "item_dates (it # its) =
     (case item_date it of None \<Rightarrow> item_dates its | Some d \<Rightarrow> d # item_dates its)"

record report =
  o_items :: "item list"
  o_totals :: totals
  o_target_date :: date
  o_report_date :: date
  o_events :: "event list"

datatype outcome = NoHoldings | Report report

definition generate_report :: "env \<Rightarrow> py_error + outcome" where
  "generate_report env =
     (case read_holdings env of
        Inl e \<Rightarrow> Inl e
      | Inr holdings \<Rightarrow>
          if holdings = [] then Inr NoHoldings
          else
            (case minus_one_day (today env) of
               Inl e \<Rightarrow> Inl e
             | Inr target_date \<Rightarrow>
                 (case fetch_tpex_latest_all env of
                    Inl e \<Rightarrow> Inl e
                  | Inr tpex_all \<Rightarrow>
                      (case report_loop env tpex_all target_date holdings [] zero_totals [] of
                         Inl e \<Rightarrow> Inl e
                       | Inr (items, tot, ev) \<Rightarrow>
                           Inr (Report
                                  \<lparr>o_items = items, o_totals = tot,
                                   o_target_date = target_date,
                                   o_report_date =
                                     (case item_dates items of
                                        [] \<Rightarrow> target_date
                                      | d # ds \<Rightarrow> fold max ds d),
                                   o_events = ev\<rparr>)))))"

text \<open>The sums the totals are compared with: from \<^verbatim>\<open>0.0\<close>, one float addition per entry.\<close>

definition fsum :: "pyfloat list \<Rightarrow> pyfloat" where
  "fsum xs = foldl fadd 0 xs"

fun priced_items :: "item list \<Rightarrow> report_item list" where
  "priced_items [] = []"
| "priced_items (NoPrice c n s e # its) = priced_items its"
| "priced_items (Priced i # its) = i # priced_items its"

definition item_code :: "item \<Rightarrow> string" where
  "item_code it = (case it of NoPrice c _ _ _ \<Rightarrow> c | Priced i \<Rightarrow> i_code i)"

definition totals_of :: "report_item list \<Rightarrow> totals" where
  "totals_of is =
     \<lparr>tot_market_value = fsum (map i_market_value is), tot_cost = fsum (map i_cost is),
      tot_pnl = fsum (map i_pnl is), tot_day_pnl = fsum (map i_day_pnl is)\<rparr>"

section \<open>Sample runs\<close>

text \<open>
  A small market for the closed statements below. On the first exchange 2317 closed at 100
  with no change on 4 March 2024, 2303 closed at the double nearest to 100.1 with a
  placeholder for the change, and 2330 has two rows; the table of the second exchange lists
  6488 with a placeholder for the change; 9999 is known nowhere. The report is made on
  8 March 2024.
\<close>

definition demo_float :: "string \<Rightarrow> pyfloat option" where
  "demo_float = map_of [(''520.5'', 1041 / 2), (''-3.5'', - 7 / 2), (''33.0'', 33)]"

definition demo_twse :: "string \<Rightarrow> nat \<Rightarrow> nat \<Rightarrow> py_error + twse_month option" where
  "demo_twse code y m =
     (if code = ''2317'' \<and> y = 2024 \<and> m = 3 then
        Inr (Some \<lparr>m_name = None,
                   m_rows = [\<lparr>r_date = Some (2024, 3, 4), r_close = Some 100,
                              r_change = Some 0\<rparr>]\<rparr>)
      else if code = ''2303'' \<and> y = 2024 \<and> m = 3 then
        Inr (Some \<lparr>m_name = None,
                   m_rows = [\<lparr>r_date = Some (2024, 3, 5),
                              r_close = Some (3521955646092083 / 35184372088832),
                              r_change = None\<rparr>]\<rparr>)
      else if code = ''2330'' \<and> y = 2024 \<and> m = 3 then
        Inr (Some \<lparr>m_name = Some ''TSMC'',
                   m_rows = [\<lparr>r_date = Some (2024, 3, 5), r_close = Some 710,
                              r_change = Some 10\<rparr>,
                             \<lparr>r_date = Some (2024, 3, 4), r_close = Some 700,
                              r_change = Some 5\<rparr>]\<rparr>)
      else Inr None)"

definition demo_env :: env where
  "demo_env =
     \<lparr>py_float = demo_float,
      today = (2024, 3, 8),
      read_holdings =
        Inr [\<lparr>h_code = ''2317'', h_lots = 1, h_avg_cost = 90\<rparr>,
             \<lparr>h_code = ''2330'', h_lots = 2, h_avg_cost = 500\<rparr>,
             \<lparr>h_code = ''6488'', h_lots = 1, h_avg_cost = 500\<rparr>,
             \<lparr>h_code = ''9999'', h_lots = 1, h_avg_cost = 10\<rparr>],
      twse_api = demo_twse,
      tpex_csv =
        Inr [[LABEL_CODE, LABEL_NAME, LABEL_CLOSE, LABEL_CHANGE],
             [''6488'', ''GW'', ''520.5'', ''--'']],
      fetch_google_news = (\<lambda>code name. Inr [])\<rparr>"

text \<open>The table that \<^verbatim>\<open>fetch_tpex_latest_all\<close> builds in the first market.\<close>

definition demo_table :: tpex where
  "demo_table =
     \<lparr>tp_header = [LABEL_CODE, LABEL_NAME, LABEL_CLOSE, LABEL_CHANGE],
      tp_hmap = [(LABEL_CHANGE, 3), (LABEL_CLOSE, 2), (LABEL_NAME, 1), (LABEL_CODE, 0)],
      tp_rows = [[''6488'', ''GW'', ''520.5'', ''--'']]\<rparr>"

text \<open>
  A table of the second exchange whose header has no column for the close: its last
  column is the lower price limit of the next day.
\<close>

definition limit_down_env :: env where
  "limit_down_env =
     demo_env\<lparr>tpex_csv :=
       Inr [[LABEL_CODE, LABEL_NAME, LABEL_CHANGE, ''LimitDown''],
            [''6488'', ''GW'', ''-3.5'', ''33.0'']]\<rparr>"

definition limit_down_table :: tpex where
  "limit_down_table =
     \<lparr>tp_header = [LABEL_CODE, LABEL_NAME, LABEL_CHANGE, ''LimitDown''],
      tp_hmap = [(''LimitDown'', 3), (LABEL_CHANGE, 2), (LABEL_NAME, 1), (LABEL_CODE, 0)],
      tp_rows = [[''6488'', ''GW'', ''-3.5'', ''33.0'']]\<rparr>"

text \<open>The report of the first market.\<close>

definition demo_out :: report where
  "demo_out =
     \<lparr>o_items =
        [Priced \<lparr>i_code = ''2317'', i_name = None, i_source = Some ''TWSE'',
                 i_date = Some (2024, 3, 4), i_close = 100, i_change = Some 0,
                 i_day_pct = Some 0, i_lots = 1, i_avg_cost = 90,
                 i_market_value = 100000, i_cost = 90000, i_pnl = 10000, i_day_pnl = 0,
                 i_news = []\<rparr>,
         Priced \<lparr>i_code = ''2330'', i_name = Some ''TSMC'', i_source = Some ''TWSE'',
                 i_date = Some (2024, 3, 5), i_close = 710, i_change = Some 10,
                 i_day_pct = Some (6433713753386423 / 4503599627370496), i_lots = 2,
                 i_avg_cost = 500,
                 i_market_value = 1420000, i_cost = 1000000, i_pnl = 420000,
                 i_day_pnl = 20000, i_news = []\<rparr>,
         Priced \<lparr>i_code = ''6488'', i_name = Some ''GW'', i_source = Some ''TPEx'',
                 i_date = None, i_close = 1041 / 2, i_change = None,
                 i_day_pct = None, i_lots = 1, i_avg_cost = 500,
                 i_market_value = 520500, i_cost = 500000, i_pnl = 20500, i_day_pnl = 0,
                 i_news = []\<rparr>,
         NoPrice ''9999'' None ''-'' ''No price data''],
      o_totals = \<lparr>tot_market_value = 2040500, tot_cost = 1590000, tot_pnl = 450500,
                  tot_day_pnl = 20000\<rparr>,
      o_target_date = (2024, 3, 7),
      o_report_date = (2024, 3, 5),
      o_events =
        [TwseRequest ''2317'' 2024 3, NewsRequest ''2317'' None,
         TwseRequest ''2330'' 2024 3, NewsRequest ''2330'' (Some ''TSMC''),
         TwseRequest ''6488'' 2024 3, TpexLookup ''6488'', NewsRequest ''6488'' (Some ''GW''),
         TwseRequest ''9999'' 2024 3, TpexLookup ''9999'']\<rparr>"

text \<open>
  A second market, for the month window: on 1 March 2024 the exchange has an empty March
  for 1101 and, for 1102, a March whose only row is dated the 4th; both traded in February.
\<close>

definition retry_twse :: "string \<Rightarrow> nat \<Rightarrow> nat \<Rightarrow> py_error + twse_month option" where
  "retry_twse code y m =
     (if code = ''1101'' \<and> y = 2024 \<and> m = 3 then
        Inr (Some \<lparr>m_name = Some ''TCC'', m_rows = []\<rparr>)
      else if code = ''1101'' \<and> y = 2024 \<and> m = 2 then
        Inr (Some \<lparr>m_name = Some ''TCC'',
                   m_rows = [\<lparr>r_date = Some (2024, 2, 29), r_close = Some 42,
                              r_change = Some 1\<rparr>]\<rparr>)
      else if code = ''1102'' \<and> y = 2024 \<and> m = 3 then
        Inr (Some \<lparr>m_name = Some ''ACC'',
                   m_rows = [\<lparr>r_date = Some (2024, 3, 4), r_close = Some 45,
                              r_change = Some 1\<rparr>]\<rparr>)
      else if code = ''1102'' \<and> y = 2024 \<and> m = 2 then
        Inr (Some \<lparr>m_name = Some ''ACC'',
                   m_rows = [\<lparr>r_date = Some (2024, 2, 29), r_close = Some 44,
                              r_change = Some 1\<rparr>,
                             \<lparr>r_date = Some (2024, 2, 27), r_close = Some 43,
                              r_change = Some (- 1)\<rparr>]\<rparr>)
      else Inr None)"

definition retry_env :: env where
  "retry_env = demo_env\<lparr>twse_api := retry_twse\<rparr>"

section \<open>Evaluation\<close>

text \<open>
  The equations that unfold the model on closed terms, and the two sample markets
  evaluated with them.
\<close>

lemmas float_eval =
  fadd_def fsub_def fmul_def fquot_def fdiv_def round_double_def round_at_def
  floor_log2_def round_half_even_def pow2_def bitlen.simps

lemmas model_eval =
  fetch_twse_month_def fetch_twse_latest_def rows_upto_def latest_of_def prev_month_def
  minus_one_day_def replace_day_1_def days_in_month_def is_leap_def
  resolve_price_def lookup_tpex_def get_tpex_row_def parse_tpex_price_def hmap_get_def
  py_index_def parse_float_def py_strip_def py_isspace_def fetch_tpex_latest_all_def
  LABEL_CODE_def LABEL_CLOSE_def LABEL_CHANGE_def LABEL_NAME_def
  demo_env_def demo_twse_def demo_float_def

lemmas report_eval =
  report_holding_def day_pct_of_def or_zero_def or_dash_def position_entry_def
  add_to_totals_def zero_totals_def generate_report_def item_date_def

lemma round_double_0: "round_double 0 = 0"
  by (simp add: round_double_def)

text \<open>
  The rounding on numbers whose doubles are well known: one tenth, one third, the sum
  \<^verbatim>\<open>0.1 + 0.2\<close>, and two ties just above \<open>2 ^ 53\<close>, which go to the even significand.
\<close>

lemma round_double_known:
  "round_double (1 / 10) = 3602879701896397 / 36028797018963968"
  "round_double (1 / 3) = 6004799503160661 / 18014398509481984"
  "fadd (round_double (1 / 10)) (round_double (2 / 10)) = 1351079888211149 / 4503599627370496"
  "round_double 9007199254740993 = 9007199254740992"
  "round_double 9007199254740995 = 9007199254740996"
  "round_double (- 9007199254740995) = - 9007199254740996"
  by (simp_all add: float_eval)


lemma demo_tpex: "fetch_tpex_latest_all demo_env = Inr (Some demo_table)"
  by (simp add: fetch_tpex_latest_all_def demo_env_def demo_table_def)

lemma demo_news: "fetch_google_news demo_env code name = Inr []"
  by (simp add: demo_env_def)

lemma demo_holdings:
  "read_holdings demo_env =
   Inr [\<lparr>h_code = ''2317'', h_lots = 1, h_avg_cost = 90\<rparr>,
        \<lparr>h_code = ''2330'', h_lots = 2, h_avg_cost = 500\<rparr>,
        \<lparr>h_code = ''6488'', h_lots = 1, h_avg_cost = 500\<rparr>,
        \<lparr>h_code = ''9999'', h_lots = 1, h_avg_cost = 10\<rparr>]"
  by (simp add: demo_env_def)

lemma demo_resolve_9999:
  "resolve_price demo_env (Some demo_table) (2024, 3, 7) ''9999'' =
   Inr (\<lparr>q_source = None, q_name = None, q_close = None, q_change = None, q_date = None\<rparr>,
        [TwseRequest ''9999'' 2024 3, TpexLookup ''9999''])"
  by (simp add: model_eval demo_table_def)

lemma demo_resolve_6488:
  "resolve_price demo_env (Some demo_table) (2024, 3, 7) ''6488'' =
   Inr (\<lparr>q_source = Some ''TPEx'', q_name = Some ''GW'', q_close = Some (1041 / 2),
         q_change = None, q_date = None\<rparr>,
        [TwseRequest ''6488'' 2024 3, TpexLookup ''6488''])"
  by (simp add: model_eval demo_table_def)

lemma demo_report: "generate_report demo_env = Inr (Report demo_out)"
  by (simp add: demo_out_def model_eval report_eval float_eval)

section \<open>The ledger update\<close>






section \<open>Resolution of a price\<close>

lemma fetch_twse_month_events:
  "fetch_twse_month env s d = Inr (x, ev) \<Longrightarrow> \<forall>c. TpexLookup c \<notin> set ev"
  by (auto simp: fetch_twse_month_def split: prod.splits sum.splits)

lemma fetch_twse_latest_events:
  "fetch_twse_latest env s d = Inr (x, ev) \<Longrightarrow> \<forall>c. TpexLookup c \<notin> set ev"
  unfolding fetch_twse_latest_def
  by (auto split: sum.splits prod.splits option.splits if_splits
           dest!: fetch_twse_month_events)

lemma day_pct_of_eq:
  "day_pct_of c change =
     Inr (case change of
            None \<Rightarrow> None
          | Some ch \<Rightarrow>
              if 0 < fsub c ch then Some (fmul (fquot ch (fsub c ch)) 100) else None)"
  by (simp add: day_pct_of_def fdiv_def split: option.splits)

lemma report_holding_priced:
  assumes "resolve_price env tpex_all target (h_code h) = Inr (q, ev)"
    and "q_close q = Some c"
    and "fetch_google_news env (h_code h) (q_name q) = Inr news"
  shows "report_holding env tpex_all target tot h =
         Inr (Priced (position_entry h q c
                        (case q_change q of
                           None \<Rightarrow> None
                         | Some ch \<Rightarrow>
                             if 0 < fsub c ch then Some (fmul (fquot ch (fsub c ch)) 100)
                             else None) news),
              add_to_totals tot
                (position_entry h q c
                   (case q_change q of
                      None \<Rightarrow> None
                    | Some ch \<Rightarrow>
                        if 0 < fsub c ch then Some (fmul (fquot ch (fsub c ch)) 100)
                        else None) news),
              ev @ [NewsRequest (h_code h) (q_name q)])"
  using assms by (simp add: report_holding_def day_pct_of_eq)

lemma report_holding_no_price:
  assumes "resolve_price env tpex_all target (h_code h) = Inr (q, ev)"
    and "q_close q = None"
  shows "report_holding env tpex_all target tot h =
         Inr (NoPrice (h_code h) (q_name q) (or_dash (q_source q)) ''No price data'', tot, ev)"
  using assms by (simp add: report_holding_def)

lemma resolve_price_primary:
  assumes "fetch_twse_latest env code target = Inr (Some t, ev)"
    and "r_close (l_latest t) = Some c"
  shows "resolve_price env tpex_all target code =
         Inr (\<lparr>q_source = Some ''TWSE'', q_name = l_name t, q_close = Some c,
               q_change = r_change (l_latest t), q_date = r_date (l_latest t)\<rparr>, ev)"
  using assms by (simp add: resolve_price_def)

text \<open>
  Claim C2. When the first exchange answers for the symbol with a latest row that has a
  close, the position takes that close with the source \<^verbatim>\<open>TWSE\<close>. The lookup in the table
  of the second exchange is not made for it: no \<open>TpexLookup\<close> is among the calls of the
  position, and what the loop body returns is the same whatever table it is given.
\<close>

theorem primary_close_skips_secondary:
  assumes "fetch_twse_latest env (h_code h) target = Inr (Some t, ev)"
    and "r_close (l_latest t) = Some c"
  shows "resolve_price env tpex_all target (h_code h) =
           Inr (\<lparr>q_source = Some ''TWSE'', q_name = l_name t, q_close = Some c,
                 q_change = r_change (l_latest t), q_date = r_date (l_latest t)\<rparr>, ev)
         \<and> (\<forall>code. TpexLookup code \<notin> set ev)
         \<and> report_holding env other_tpex target tot h = report_holding env tpex_all target tot h
         \<and> (\<forall>it tot' ev'. report_holding env tpex_all target tot h = Inr (it, tot', ev') \<longrightarrow>
              (\<exists>i. it = Priced i \<and> i_close i = c \<and> i_source i = Some ''TWSE'')
              \<and> (\<forall>code. TpexLookup code \<notin> set ev'))"
proof -
  let ?q = "\<lparr>q_source = Some ''TWSE'', q_name = l_name t, q_close = Some c,
             q_change = r_change (l_latest t), q_date = r_date (l_latest t)\<rparr>"
  have r: "resolve_price env x target (h_code h) = Inr (?q, ev)" for x
    using assms by (rule resolve_price_primary)
  have e: "\<forall>code. TpexLookup code \<notin> set ev"
    using assms(1) by (rule fetch_twse_latest_events)
  have same: "report_holding env other_tpex target tot h = report_holding env tpex_all target tot h"
    by (simp add: report_holding_def r)
  have item: "(\<exists>i. it = Priced i \<and> i_close i = c \<and> i_source i = Some ''TWSE'')
              \<and> (\<forall>code. TpexLookup code \<notin> set ev')"
    if "report_holding env tpex_all target tot h = Inr (it, tot', ev')" for it tot' ev'
    using that e
    by (auto simp: report_holding_def r position_entry_def split: sum.splits)
  show ?thesis using r e same item by blast
qed

text \<open>In the first market 2330 is resolved by the first exchange, with one request.\<close>

theorem primary_close_skips_secondary_witness:
  "resolve_price demo_env (Some demo_table) (2024, 3, 7) ''2330'' =
     Inr (\<lparr>q_source = Some ''TWSE'', q_name = Some ''TSMC'', q_close = Some 710,
           q_change = Some 10, q_date = Some (2024, 3, 5)\<rparr>, [TwseRequest ''2330'' 2024 3])
   \<and> report_holding demo_env None (2024, 3, 7) zero_totals
        \<lparr>h_code = ''2330'', h_lots = 2, h_avg_cost = 500\<rparr> =
     report_holding demo_env (Some demo_table) (2024, 3, 7) zero_totals
        \<lparr>h_code = ''2330'', h_lots = 2, h_avg_cost = 500\<rparr>"
proof -
  have f: "fetch_twse_latest demo_env (h_code \<lparr>h_code = ''2330'', h_lots = 2, h_avg_cost = 500\<rparr>)
             (2024, 3, 7) =
           Inr (Some \<lparr>l_source = ''TWSE'', l_name = Some ''TSMC'',
                      l_latest = \<lparr>r_date = Some (2024, 3, 5), r_close = Some 710,
                                  r_change = Some 10\<rparr>,
                      l_prev = Some \<lparr>r_date = Some (2024, 3, 4), r_close = Some 700,
                                     r_change = Some 5\<rparr>\<rparr>,
                [TwseRequest ''2330'' 2024 3])"
    by (simp add: model_eval)
  show ?thesis
    using primary_close_skips_secondary
      [OF f, of 710 "Some demo_table" None zero_totals]
    by simp
qed

section \<open>The month window\<close>

lemma rows_upto_dated:
  "r \<in> set (rows_upto rs target) \<Longrightarrow> r \<in> set rs \<and> (\<exists>d. r_date r = Some d \<and> d \<le> target)"
  by (auto simp: rows_upto_def split: option.splits)

lemma last_sorted_max:
  assumes "sorted (map f xs)" and "x \<in> set xs"
  shows "f x \<le> f (last xs)"
proof -
  from assms(2) obtain i where i: "i < length xs" "xs ! i = x"
    by (auto simp: in_set_conv_nth)
  then have ne: "xs \<noteq> []" by auto
  have "map f xs ! i \<le> map f xs ! (length xs - 1)"
    using assms(1) i(1) by (intro sorted_nth_mono) auto
  then show ?thesis
    using i ne by (simp add: last_conv_nth)
qed

lemma latest_of_max:
  assumes "rows \<noteq> []"
  shows "\<exists>t. latest_of month rows = Some t \<and> l_latest t \<in> set rows
             \<and> (\<forall>r \<in> set rows. the (r_date r) \<le> the (r_date (l_latest t)))"
proof -
  let ?s = "sort_key (\<lambda>r. the (r_date r)) rows"
  have ne: "?s \<noteq> []" using assms by (metis length_sort list.size(3) length_0_conv)
  have mem: "last ?s \<in> set rows" using ne last_in_set by fastforce
  have mx: "the (r_date r) \<le> the (r_date (last ?s))" if "r \<in> set rows" for r
    using last_sorted_max [of "\<lambda>r. the (r_date r)" ?s r] that by simp
  show ?thesis
    using assms mem mx by (simp add: latest_of_def)
qed

lemma prev_month_eq:
  "1 < m \<or> 1 < y \<Longrightarrow>
   prev_month (y, m, d) = Inr (if 1 < m then y else y - 1, if 1 < m then m - 1 else 12, 1)"
  by (auto simp: prev_month_def minus_one_day_def replace_day_1_def)

text \<open>
  Claim C3, as the code has it. The target date is not in January of year 1. When the
  answer for the month of the target date is missing or has no row, the resolution ends with
  \<open>None\<close> after that one request: there is no second request. When the answer has rows
  and none of them is dated on or before the target, exactly one more request is made, for
  the previous calendar month; the result is then built on the row of that month with the
  latest date on or before the target, and is \<open>None\<close> when that month has no such row.
\<close>

theorem month_retry:
  assumes "1 < m \<or> 1 < y"
    and "twse_api env s y m = Inr cur"
    and "twse_api env s (if 1 < m then y else y - 1) (if 1 < m then m - 1 else 12) = Inr prior"
  shows "(month_empty cur \<longrightarrow>
            fetch_twse_latest env s (y, m, d) = Inr (None, [TwseRequest s y m]))
       \<and> (\<not> month_empty cur \<and> month_rows_upto cur (y, m, d) = [] \<longrightarrow>
            (\<exists>res. fetch_twse_latest env s (y, m, d) =
                     Inr (res, [TwseRequest s y m,
                                TwseRequest s (if 1 < m then y else y - 1)
                                              (if 1 < m then m - 1 else 12)])
               \<and> (month_rows_upto prior (y, m, d) = [] \<longrightarrow> res = None)
               \<and> (month_rows_upto prior (y, m, d) \<noteq> [] \<longrightarrow>
                    (\<exists>t dl. res = Some t
                       \<and> l_latest t \<in> set (month_rows_upto prior (y, m, d))
                       \<and> r_date (l_latest t) = Some dl
                       \<and> (\<forall>r \<in> set (month_rows_upto prior (y, m, d)).
                            \<forall>dd. r_date r = Some dd \<longrightarrow> dd \<le> dl)))))"
proof (intro conjI impI)
  assume "month_empty cur"
  then show "fetch_twse_latest env s (y, m, d) = Inr (None, [TwseRequest s y m])"
    using assms(2)
    by (auto simp: fetch_twse_latest_def fetch_twse_month_def month_empty_def
             split: option.splits)
next
  let ?py = "if 1 < m then y else y - 1" and ?pm = "if 1 < m then m - 1 else 12"
  let ?t = "(y, m, d)"
  assume a: "\<not> month_empty cur \<and> month_rows_upto cur ?t = []"
  then obtain c where c: "cur = Some c" "m_rows c \<noteq> []" "rows_upto (m_rows c) ?t = []"
    by (auto simp: month_empty_def month_rows_upto_def split: option.splits)
  have pm: "prev_month ?t = Inr (?py, ?pm, 1)"
    using assms(1) by (rule prev_month_eq)
  define res where
    "res = (case prior of None \<Rightarrow> None
            | Some p \<Rightarrow> if m_rows p = [] then None else latest_of p (rows_upto (m_rows p) ?t))"
  have run: "fetch_twse_latest env s ?t = Inr (res, [TwseRequest s y m, TwseRequest s ?py ?pm])"
    using assms(2,3) c pm
    by (simp add: fetch_twse_latest_def fetch_twse_month_def res_def split: option.splits)
  have none: "res = None" if "month_rows_upto prior ?t = []"
    using that
    by (auto simp: res_def month_rows_upto_def latest_of_def split: option.splits)
  have some: "\<exists>t dl. res = Some t
                \<and> l_latest t \<in> set (month_rows_upto prior ?t)
                \<and> r_date (l_latest t) = Some dl
                \<and> (\<forall>r \<in> set (month_rows_upto prior ?t). \<forall>dd. r_date r = Some dd \<longrightarrow> dd \<le> dl)"
    if ne: "month_rows_upto prior ?t \<noteq> []"
  proof -
    from ne obtain p where p: "prior = Some p" "rows_upto (m_rows p) ?t \<noteq> []"
      by (auto simp: month_rows_upto_def split: option.splits)
    then have rows: "m_rows p \<noteq> []" by (auto simp: rows_upto_def)
    from latest_of_max [OF p(2), of p] obtain t where
      t: "latest_of p (rows_upto (m_rows p) ?t) = Some t"
         "l_latest t \<in> set (rows_upto (m_rows p) ?t)"
         "\<forall>r \<in> set (rows_upto (m_rows p) ?t). the (r_date r) \<le> the (r_date (l_latest t))"
      by blast
    from rows_upto_dated [OF t(2)] obtain dl where dl: "r_date (l_latest t) = Some dl"
      by blast
    have "res = Some t" using p rows t(1) by (simp add: res_def)
    moreover have "l_latest t \<in> set (month_rows_upto prior ?t)"
      using t(2) p(1) by (simp add: month_rows_upto_def)
    moreover have "\<forall>r \<in> set (month_rows_upto prior ?t). \<forall>dd. r_date r = Some dd \<longrightarrow> dd \<le> dl"
      using t(3) dl p(1) by (fastforce simp: month_rows_upto_def)
    ultimately show ?thesis using dl by blast
  qed
  show "\<exists>res. fetch_twse_latest env s ?t = Inr (res, [TwseRequest s y m, TwseRequest s ?py ?pm])
          \<and> (month_rows_upto prior ?t = [] \<longrightarrow> res = None)
          \<and> (month_rows_upto prior ?t \<noteq> [] \<longrightarrow>
               (\<exists>t dl. res = Some t
                  \<and> l_latest t \<in> set (month_rows_upto prior ?t)
                  \<and> r_date (l_latest t) = Some dl
                  \<and> (\<forall>r \<in> set (month_rows_upto prior ?t).
                       \<forall>dd. r_date r = Some dd \<longrightarrow> dd \<le> dl)))"
    using run none some by blast
qed

text \<open>
  The claim as stated counts the empty month among the cases of the retry. On 1 March 2024
  the exchange answers for 1101 with an empty March; February has a row dated 29 February.
  The resolution asks for March only and returns \<open>None\<close>.
\<close>

theorem month_retry_counterexample:
  "twse_api retry_env ''1101'' 2024 3 = Inr (Some \<lparr>m_name = Some ''TCC'', m_rows = []\<rparr>)
   \<and> twse_api retry_env ''1101'' 2024 2 =
       Inr (Some \<lparr>m_name = Some ''TCC'',
                  m_rows = [\<lparr>r_date = Some (2024, 2, 29), r_close = Some 42,
                             r_change = Some 1\<rparr>]\<rparr>)
   \<and> (2024, 2, 29) < ((2024, 3, 1) :: date)
   \<and> fetch_twse_latest retry_env ''1101'' (2024, 3, 1) = Inr (None, [TwseRequest ''1101'' 2024 3])"
  by (simp add: retry_env_def retry_twse_def demo_env_def fetch_twse_latest_def
        fetch_twse_month_def)

text \<open>
  Both cases in the second market: 1101 with its empty March, and 1102, whose March has a
  single row dated after the target and whose February ends on the 29th.
\<close>

theorem month_retry_witness:
  "fetch_twse_latest retry_env ''1101'' (2024, 3, 1) = Inr (None, [TwseRequest ''1101'' 2024 3])
   \<and> fetch_twse_latest retry_env ''1102'' (2024, 3, 1) =
       Inr (Some \<lparr>l_source = ''TWSE'', l_name = Some ''ACC'',
                  l_latest = \<lparr>r_date = Some (2024, 2, 29), r_close = Some 44,
                              r_change = Some 1\<rparr>,
                  l_prev = Some \<lparr>r_date = Some (2024, 2, 27), r_close = Some 43,
                                 r_change = Some (- 1)\<rparr>\<rparr>,
            [TwseRequest ''1102'' 2024 3, TwseRequest ''1102'' 2024 2])"
proof -
  have a: "fetch_twse_latest retry_env ''1101'' (2024, 3, 1) =
           Inr (None, [TwseRequest ''1101'' 2024 3])"
    using month_retry
      [where m = 3 and y = 2024 and env = retry_env and s = "''1101''" and d = 1
         and cur = "Some \<lparr>m_name = Some ''TCC'', m_rows = []\<rparr>"
         and prior = "Some \<lparr>m_name = Some ''TCC'',
                             m_rows = [\<lparr>r_date = Some (2024, 2, 29), r_close = Some 42,
                                        r_change = Some 1\<rparr>]\<rparr>"]
    by (simp add: retry_env_def retry_twse_def demo_env_def month_empty_def)
  have b: "fetch_twse_latest retry_env ''1102'' (2024, 3, 1) =
       Inr (Some \<lparr>l_source = ''TWSE'', l_name = Some ''ACC'',
                  l_latest = \<lparr>r_date = Some (2024, 2, 29), r_close = Some 44,
                              r_change = Some 1\<rparr>,
                  l_prev = Some \<lparr>r_date = Some (2024, 2, 27), r_close = Some 43,
                                 r_change = Some (- 1)\<rparr>\<rparr>,
            [TwseRequest ''1102'' 2024 3, TwseRequest ''1102'' 2024 2])"
    using month_retry
      [where m = 3 and y = 2024 and env = retry_env and s = "''1102''" and d = 1
         and cur = "Some \<lparr>m_name = Some ''ACC'',
                           m_rows = [\<lparr>r_date = Some (2024, 3, 4), r_close = Some 45,
                                      r_change = Some 1\<rparr>]\<rparr>"
         and prior = "Some \<lparr>m_name = Some ''ACC'',
                             m_rows = [\<lparr>r_date = Some (2024, 2, 29), r_close = Some 44,
                                        r_change = Some 1\<rparr>,
                                       \<lparr>r_date = Some (2024, 2, 27), r_close = Some 43,
                                        r_change = Some (- 1)\<rparr>]\<rparr>"]
    by (simp add: retry_env_def retry_twse_def demo_env_def month_empty_def
          month_rows_upto_def rows_upto_def latest_of_def fetch_twse_latest_def
          fetch_twse_month_def prev_month_def minus_one_day_def replace_day_1_def
          days_in_month_def is_leap_def)
  show ?thesis using a b by simp
qed

section \<open>The figures of a position\<close>

text \<open>
  Claim C4, as the code has it. For a position with a close (the news request answering),
  the percentage of the day is present exactly when the change is present and the close
  minus the change, as the program computes it, is positive; a change of zero is not set
  apart. Its value is then the change over that difference, times 100. The loop body
  returns: no division raises. When the change equals the close the percentage is absent.
\<close>

theorem day_pct_guard:
  assumes "resolve_price env tpex_all target (h_code h) = Inr (q, ev)"
    and "q_close q = Some c"
    and "fetch_google_news env (h_code h) (q_name q) = Inr news"
  shows "\<exists>i. report_holding env tpex_all target tot h =
               Inr (Priced i, add_to_totals tot i, ev @ [NewsRequest (h_code h) (q_name q)])
            \<and> (i_day_pct i \<noteq> None \<longleftrightarrow> (\<exists>ch. q_change q = Some ch \<and> 0 < fsub c ch))
            \<and> (\<forall>ch. q_change q = Some ch \<and> 0 < fsub c ch \<longrightarrow>
                  i_day_pct i = Some (fmul (fquot ch (fsub c ch)) 100))
            \<and> (q_change q = Some c \<longrightarrow> i_day_pct i = None)"
proof -
  let ?dp = "case q_change q of
               None \<Rightarrow> None
             | Some ch \<Rightarrow>
                 if 0 < fsub c ch then Some (fmul (fquot ch (fsub c ch)) 100) else None"
  let ?i = "position_entry h q c ?dp news"
  have run: "report_holding env tpex_all target tot h =
             Inr (Priced ?i, add_to_totals tot ?i, ev @ [NewsRequest (h_code h) (q_name q)])"
    using assms by (rule report_holding_priced)
  have dp: "i_day_pct ?i = ?dp"
    by (simp add: position_entry_def)
  have p1: "i_day_pct ?i \<noteq> None \<longleftrightarrow> (\<exists>ch. q_change q = Some ch \<and> 0 < fsub c ch)"
    unfolding dp by (cases "q_change q") auto
  have p2: "\<forall>ch. q_change q = Some ch \<and> 0 < fsub c ch \<longrightarrow>
              i_day_pct ?i = Some (fmul (fquot ch (fsub c ch)) 100)"
    unfolding dp by auto
  have p3: "q_change q = Some c \<longrightarrow> i_day_pct ?i = None"
    unfolding dp by (auto simp: fsub_def round_double_0)
  show ?thesis using run p1 p2 p3 by blast
qed

text \<open>
  The claim as stated wants the percentage absent when the change is zero. For 2317, which
  closed at 100 with a change of 0, the body stores a percentage of 0.
\<close>

theorem day_pct_guard_counterexample:
  "report_holding demo_env None (2024, 3, 7) zero_totals
     \<lparr>h_code = ''2317'', h_lots = 1, h_avg_cost = 90\<rparr> =
   Inr (Priced \<lparr>i_code = ''2317'', i_name = None, i_source = Some ''TWSE'',
                i_date = Some (2024, 3, 4), i_close = 100, i_change = Some 0,
                i_day_pct = Some 0, i_lots = 1, i_avg_cost = 90,
                i_market_value = 100000, i_cost = 90000, i_pnl = 10000, i_day_pnl = 0,
                i_news = []\<rparr>,
        \<lparr>tot_market_value = 100000, tot_cost = 90000, tot_pnl = 10000, tot_day_pnl = 0\<rparr>,
        [TwseRequest ''2317'' 2024 3, NewsRequest ''2317'' None])"
  by (simp add: model_eval report_eval float_eval)

text \<open>For 2330, with a close of 710 and a change of 10, the percentage is 10 / 700 * 100.\<close>

theorem day_pct_guard_witness:
  "report_holding demo_env None (2024, 3, 7) zero_totals
     \<lparr>h_code = ''2330'', h_lots = 2, h_avg_cost = 500\<rparr> =
   Inr (Priced \<lparr>i_code = ''2330'', i_name = Some ''TSMC'', i_source = Some ''TWSE'',
                 i_date = Some (2024, 3, 5), i_close = 710, i_change = Some 10,
                 i_day_pct = Some (6433713753386423 / 4503599627370496), i_lots = 2,
                 i_avg_cost = 500,
                 i_market_value = 1420000, i_cost = 1000000, i_pnl = 420000,
                 i_day_pnl = 20000, i_news = []\<rparr>,
        \<lparr>tot_market_value = 1420000, tot_cost = 1000000, tot_pnl = 420000,
          tot_day_pnl = 20000\<rparr>,
        [TwseRequest ''2330'' 2024 3, NewsRequest ''2330'' (Some ''TSMC'')])
   \<and> 0 < fsub 710 10
   \<and> fmul (fquot 10 (fsub 710 10)) 100 = 6433713753386423 / 4503599627370496"
proof -
  have r: "resolve_price demo_env None (2024, 3, 7)
             (h_code \<lparr>h_code = ''2330'', h_lots = 2, h_avg_cost = 500\<rparr>) =
           Inr (\<lparr>q_source = Some ''TWSE'', q_name = Some ''TSMC'', q_close = Some 710,
                 q_change = Some 10, q_date = Some (2024, 3, 5)\<rparr>,
                [TwseRequest ''2330'' 2024 3])"
    by (simp add: model_eval)
  have n: "fetch_google_news demo_env
             (h_code \<lparr>h_code = ''2330'', h_lots = 2, h_avg_cost = 500\<rparr>)
             (q_name \<lparr>q_source = Some ''TWSE'', q_name = Some ''TSMC'', q_close = Some 710,
                      q_change = Some 10, q_date = Some (2024, 3, 5)\<rparr>) = Inr []"
    by (simp add: demo_env_def)
  show ?thesis
    using day_pct_guard [OF r _ n, of 710 zero_totals]
    by (simp add: model_eval report_eval float_eval)
qed

text \<open>
  Claim C5, as the code has it. For a position with a close, the market value is
  \<open>close * shares\<close>, the cost \<open>avg_cost * shares\<close> and the unrealized profit
  \<open>(close - avg_cost) * shares\<close>, each rounded, with the same \<open>shares = lots * 1000\<close> in
  the three of them. The profit is the market value minus the cost when the difference
  \<open>close - avg_cost\<close> and the three products are doubles, so that none of them is rounded.
\<close>

theorem pnl_identity_when_exact:
  assumes "resolve_price env tpex_all target (h_code h) = Inr (q, ev)"
    and "q_close q = Some c"
    and "report_holding env tpex_all target tot h = Inr (Priced i, tot', ev')"
  shows "i_market_value i = fmul c (fmul (h_lots h) 1000)
       \<and> i_cost i = fmul (h_avg_cost h) (fmul (h_lots h) 1000)
       \<and> i_pnl i = fmul (fsub c (h_avg_cost h)) (fmul (h_lots h) 1000)
       \<and> (representable (c - h_avg_cost h)
          \<and> representable (c * fmul (h_lots h) 1000)
          \<and> representable (h_avg_cost h * fmul (h_lots h) 1000)
          \<and> representable ((c - h_avg_cost h) * fmul (h_lots h) 1000) \<longrightarrow>
            i_pnl i = fsub (i_market_value i) (i_cost i))"
proof -
  let ?s = "fmul (h_lots h) 1000"
  from assms obtain dp news where i: "i = position_entry h q c dp news"
    by (auto simp: report_holding_def split: sum.splits)
  have mv: "i_market_value i = fmul c ?s" and cost: "i_cost i = fmul (h_avg_cost h) ?s"
    and pnl: "i_pnl i = fmul (fsub c (h_avg_cost h)) ?s"
    by (simp_all add: i position_entry_def)
  have exact: "i_pnl i = fsub (i_market_value i) (i_cost i)"
    if r: "representable (c - h_avg_cost h)" "representable (c * ?s)"
      "representable (h_avg_cost h * ?s)" "representable ((c - h_avg_cost h) * ?s)"
  proof -
    have "i_pnl i = (c - h_avg_cost h) * ?s"
      using r(1,4) by (simp add: pnl fmul_def fsub_def representable_def)
    moreover have "fsub (i_market_value i) (i_cost i) = round_double (c * ?s - h_avg_cost h * ?s)"
      using r(2,3) by (simp add: mv cost fmul_def fsub_def representable_def)
    moreover have "c * ?s - h_avg_cost h * ?s = (c - h_avg_cost h) * ?s"
      by (simp add: algebra_simps)
    ultimately show ?thesis
      using r(4) by (simp add: representable_def)
  qed
  show ?thesis using mv cost pnl exact by blast
qed

text \<open>
  Without that, the equality fails. One lot of 2303 bought at 99.7 and closing at 100.1
  (the doubles nearest to these) has a market value of 100100, a cost of 99700 and a profit
  of 399.9999999999915, where the difference of the first two is 400.
\<close>

theorem pnl_identity_counterexample:
  "round_double (1001 / 10) = 3521955646092083 / 35184372088832
   \<and> round_double (997 / 10) = 7015763794513101 / 70368744177664
   \<and> report_holding demo_env None (2024, 3, 7) zero_totals
       \<lparr>h_code = ''2303'', h_lots = 1, h_avg_cost = 7015763794513101 / 70368744177664\<rparr> =
     Inr (Priced \<lparr>i_code = ''2303'', i_name = None, i_source = Some ''TWSE'',
                  i_date = Some (2024, 3, 5), i_close = 3521955646092083 / 35184372088832,
                  i_change = None, i_day_pct = None, i_lots = 1,
                  i_avg_cost = 7015763794513101 / 70368744177664,
                  i_market_value = 100100, i_cost = 99700,
                  i_pnl = 3518437208883125 / 8796093022208, i_day_pnl = 0,
                  i_news = []\<rparr>,
          \<lparr>tot_market_value = 100100, tot_cost = 99700,
            tot_pnl = 3518437208883125 / 8796093022208, tot_day_pnl = 0\<rparr>,
          [TwseRequest ''2303'' 2024 3, NewsRequest ''2303'' None])
   \<and> fsub 100100 99700 = 400
   \<and> (3518437208883125 / 8796093022208 :: real) < 400"
  by (simp add: model_eval report_eval float_eval)

text \<open>Two lots of 2330 bought at 500 and closing at 710: every step is exact.\<close>

theorem pnl_identity_when_exact_witness:
  "report_holding demo_env None (2024, 3, 7) zero_totals
     \<lparr>h_code = ''2330'', h_lots = 2, h_avg_cost = 500\<rparr> =
   Inr (Priced \<lparr>i_code = ''2330'', i_name = Some ''TSMC'', i_source = Some ''TWSE'',
                 i_date = Some (2024, 3, 5), i_close = 710, i_change = Some 10,
                 i_day_pct = Some (6433713753386423 / 4503599627370496), i_lots = 2,
                 i_avg_cost = 500,
                 i_market_value = 1420000, i_cost = 1000000, i_pnl = 420000,
                 i_day_pnl = 20000, i_news = []\<rparr>,
        \<lparr>tot_market_value = 1420000, tot_cost = 1000000, tot_pnl = 420000,
          tot_day_pnl = 20000\<rparr>,
        [TwseRequest ''2330'' 2024 3, NewsRequest ''2330'' (Some ''TSMC'')])
   \<and> representable (710 - 500) \<and> representable (710 * fmul 2 1000)
   \<and> representable (500 * fmul 2 1000) \<and> representable ((710 - 500) * fmul 2 1000)
   \<and> fsub 1420000 1000000 = 420000"
proof -
  let ?h = "\<lparr>h_code = ''2330'', h_lots = 2, h_avg_cost = 500\<rparr>"
  let ?i = "\<lparr>i_code = ''2330'', i_name = Some ''TSMC'', i_source = Some ''TWSE'',
             i_date = Some (2024, 3, 5), i_close = 710, i_change = Some 10,
             i_day_pct = Some (6433713753386423 / 4503599627370496), i_lots = 2,
             i_avg_cost = 500,
             i_market_value = 1420000, i_cost = 1000000, i_pnl = 420000,
             i_day_pnl = 20000, i_news = []\<rparr>"
  have r: "resolve_price demo_env None (2024, 3, 7) (h_code ?h) =
           Inr (\<lparr>q_source = Some ''TWSE'', q_name = Some ''TSMC'', q_close = Some 710,
                 q_change = Some 10, q_date = Some (2024, 3, 5)\<rparr>,
                [TwseRequest ''2330'' 2024 3])"
    by (simp add: model_eval)
  have run: "report_holding demo_env None (2024, 3, 7) zero_totals ?h =
             Inr (Priced ?i,
                  \<lparr>tot_market_value = 1420000, tot_cost = 1000000, tot_pnl = 420000,
                    tot_day_pnl = 20000\<rparr>,
                  [TwseRequest ''2330'' 2024 3, NewsRequest ''2330'' (Some ''TSMC'')])"
    by (simp add: model_eval report_eval float_eval)
  have s: "fmul 2 1000 = 2000"
    by (simp add: float_eval)
  have e: "representable (710 - 500)" "representable (710 * 2000)"
    "representable (500 * 2000)" "representable ((710 - 500) * 2000)"
    by (simp_all add: representable_def float_eval)
  show ?thesis
    using pnl_identity_when_exact [OF r _ run, of 710] run e
    by (simp add: s)
qed

text \<open>
  Claim C10. For a position with a close and no change (the news request answering), the
  profit of the day is the number 0, the total of the day receives that 0 by a float
  addition, and the percentage of the day is absent.
\<close>

theorem absent_change_counts_as_zero:
  assumes "resolve_price env tpex_all target (h_code h) = Inr (q, ev)"
    and "q_close q = Some c"
    and "q_change q = None"
    and "fetch_google_news env (h_code h) (q_name q) = Inr news"
  shows "\<exists>i. report_holding env tpex_all target tot h =
               Inr (Priced i, add_to_totals tot i, ev @ [NewsRequest (h_code h) (q_name q)])
            \<and> i_close i = c \<and> i_change i = None \<and> i_day_pnl i = 0 \<and> i_day_pct i = None
            \<and> tot_day_pnl (add_to_totals tot i) = fadd (tot_day_pnl tot) 0"
proof -
  let ?i = "position_entry h q c None news"
  have "report_holding env tpex_all target tot h =
        Inr (Priced ?i, add_to_totals tot ?i, ev @ [NewsRequest (h_code h) (q_name q)])"
    using report_holding_priced [OF assms(1,2,4), of tot] assms(3) by simp
  moreover have "i_close ?i = c" "i_change ?i = None" "i_day_pct ?i = None"
    using assms(3) by (simp_all add: position_entry_def)
  moreover have z: "i_day_pnl ?i = 0"
    using assms(3) by (simp add: position_entry_def or_zero_def fmul_def round_double_0)
  moreover have "tot_day_pnl (add_to_totals tot ?i) = fadd (tot_day_pnl tot) 0"
    using z by (simp add: add_to_totals_def)
  ultimately show ?thesis by blast
qed

text \<open>
  In the first market 6488 comes from the table of the second exchange with a placeholder
  for the change; the totals are those of the two positions before it.
\<close>

theorem absent_change_counts_as_zero_witness:
  "report_holding demo_env (Some demo_table) (2024, 3, 7)
     \<lparr>tot_market_value = 1520000, tot_cost = 1090000, tot_pnl = 430000, tot_day_pnl = 20000\<rparr>
     \<lparr>h_code = ''6488'', h_lots = 1, h_avg_cost = 500\<rparr> =
   Inr (Priced \<lparr>i_code = ''6488'', i_name = Some ''GW'', i_source = Some ''TPEx'',
                 i_date = None, i_close = 1041 / 2, i_change = None,
                 i_day_pct = None, i_lots = 1, i_avg_cost = 500,
                 i_market_value = 520500, i_cost = 500000, i_pnl = 20500, i_day_pnl = 0,
                 i_news = []\<rparr>,
        \<lparr>tot_market_value = 2040500, tot_cost = 1590000, tot_pnl = 450500,
          tot_day_pnl = 20000\<rparr>,
        [TwseRequest ''6488'' 2024 3, TpexLookup ''6488'', NewsRequest ''6488'' (Some ''GW'')])
   \<and> fadd 20000 0 = 20000"
proof -
  let ?h = "\<lparr>h_code = ''6488'', h_lots = 1, h_avg_cost = 500\<rparr>"
  let ?tot = "\<lparr>tot_market_value = 1520000, tot_cost = 1090000, tot_pnl = 430000,
               tot_day_pnl = 20000\<rparr>"
  have r: "resolve_price demo_env (Some demo_table) (2024, 3, 7) (h_code ?h) =
           Inr (\<lparr>q_source = Some ''TPEx'', q_name = Some ''GW'', q_close = Some (1041 / 2),
                 q_change = None, q_date = None\<rparr>,
                [TwseRequest ''6488'' 2024 3, TpexLookup ''6488''])"
    using demo_resolve_6488 by simp
  have n: "fetch_google_news demo_env (h_code ?h)
             (q_name \<lparr>q_source = Some ''TPEx'', q_name = Some ''GW'', q_close = Some (1041 / 2),
                       q_change = None, q_date = None\<rparr>) = Inr []"
    by (simp add: demo_news)
  have run: "report_holding demo_env (Some demo_table) (2024, 3, 7) ?tot ?h =
             Inr (Priced \<lparr>i_code = ''6488'', i_name = Some ''GW'', i_source = Some ''TPEx'',
                           i_date = None, i_close = 1041 / 2, i_change = None,
                           i_day_pct = None, i_lots = 1, i_avg_cost = 500,
                           i_market_value = 520500, i_cost = 500000, i_pnl = 20500,
                           i_day_pnl = 0, i_news = []\<rparr>,
                  \<lparr>tot_market_value = 2040500, tot_cost = 1590000, tot_pnl = 450500,
                    tot_day_pnl = 20000\<rparr>,
                  [TwseRequest ''6488'' 2024 3, TpexLookup ''6488'',
                   NewsRequest ''6488'' (Some ''GW'')])"
    by (simp add: report_holding_def demo_resolve_6488 demo_news day_pct_of_def
          position_entry_def add_to_totals_def or_zero_def float_eval)
  from absent_change_counts_as_zero [OF r _ _ n, of "1041 / 2" ?tot]
  obtain i where
    i: "report_holding demo_env (Some demo_table) (2024, 3, 7) ?tot ?h =
          Inr (Priced i, add_to_totals ?tot i,
               [TwseRequest ''6488'' 2024 3, TpexLookup ''6488''] @
               [NewsRequest ''6488'' (Some ''GW'')])"
       "tot_day_pnl (add_to_totals ?tot i) = fadd (tot_day_pnl ?tot) 0"
    by auto
  from i(1) have "add_to_totals ?tot i =
                  \<lparr>tot_market_value = 2040500, tot_cost = 1590000, tot_pnl = 450500,
                    tot_day_pnl = 20000\<rparr>"
    unfolding run by simp
  with i(2) have "fadd 20000 0 = 20000" by simp
  with run show ?thesis by simp
qed

section \<open>The lookup in the table of the second exchange\<close>

text \<open>
  The scan returns the first row whose cell at the index of the code label is the symbol,
  character for character, and \<open>None\<close> when no row has it; a missing name label gives
  no name.
\<close>

lemma scan_rows_found:
  "scan_rows i rows code = Inr (Some r) \<Longrightarrow> r \<in> set rows \<and> py_index r i = Inr code"
  by (induction rows) (auto split: sum.splits if_splits)

lemma scan_rows_missed:
  "scan_rows i rows code = Inr None \<Longrightarrow> \<forall>r \<in> set rows. py_index r i \<noteq> Inr code"
  by (induction rows) (auto split: sum.splits if_splits)

lemma lookup_tpex_missed:
  "get_tpex_row tpex_all code = Inr None \<Longrightarrow>
   lookup_tpex env tpex_all code =
   Inr (\<lparr>q_source = None, q_name = None, q_close = None, q_change = None, q_date = None\<rparr>,
        [TpexLookup code])"
  by (simp add: lookup_tpex_def)

lemma parse_tpex_price_no_name_label:
  "map_of hmap LABEL_NAME = None \<Longrightarrow> parse_tpex_price env row hmap = Inr (c, ch, n) \<Longrightarrow>
   n = None"
  by (auto simp: parse_tpex_price_def hmap_get_def split: sum.splits)

text \<open>
  Claim C8 at a header without the close label. \<^verbatim>\<open>hmap.get(label, -1)\<close> gives the index
  \<open>-1\<close> for a missing label, and \<^verbatim>\<open>row[-1]\<close> is the last cell of the row. Only the name
  is guarded by \<^verbatim>\<open>>= 0\<close>. So the close of 6488 is read from the last column, the lower
  price limit, and the position is resolved at 33.
\<close>

theorem missing_close_label_reads_last_column:
  "fetch_tpex_latest_all limit_down_env = Inr (Some limit_down_table)
   \<and> map_of (tp_hmap limit_down_table) LABEL_CLOSE = None
   \<and> get_tpex_row (Some limit_down_table) ''6488'' =
       Inr (Some [''6488'', ''GW'', ''-3.5'', ''33.0''])
   \<and> parse_tpex_price limit_down_env [''6488'', ''GW'', ''-3.5'', ''33.0'']
       (tp_hmap limit_down_table) = Inr (Some 33, Some (- 7 / 2), Some ''GW'')
   \<and> resolve_price limit_down_env (Some limit_down_table) (2024, 3, 7) ''6488'' =
       Inr (\<lparr>q_source = Some ''TPEx'', q_name = Some ''GW'', q_close = Some 33,
             q_change = Some (- 7 / 2), q_date = None\<rparr>,
            [TwseRequest ''6488'' 2024 3, TpexLookup ''6488''])"
  by (simp add: model_eval limit_down_env_def limit_down_table_def)

section \<open>Totals and the date of the report\<close>

lemma position_entry_code: "i_code (position_entry h q c dp news) = h_code h"
  by (simp add: position_entry_def)

lemma report_holding_cases:
  assumes "report_holding env tp target tot h = Inr (it, tot', ev)"
  shows "(\<exists>n s. it = NoPrice (h_code h) n s ''No price data'' \<and> tot' = tot)
         \<or> (\<exists>i. it = Priced i \<and> i_code i = h_code h \<and> tot' = add_to_totals tot i)"
proof -
  from assms obtain q ev0 where r: "resolve_price env tp target (h_code h) = Inr (q, ev0)"
    by (auto simp: report_holding_def split: sum.splits)
  show ?thesis
  proof (cases "q_close q")
    case None
    with assms r show ?thesis by (auto simp: report_holding_def)
  next
    case (Some c)
    with assms r obtain dp news where
      "it = Priced (position_entry h q c dp news)"
      "tot' = add_to_totals tot (position_entry h q c dp news)"
      by (auto simp: report_holding_def split: sum.splits)
    then show ?thesis using position_entry_code by blast
  qed
qed

lemma priced_items_snoc:
  "priced_items (its @ [it]) =
   priced_items its @ (case it of NoPrice c n s e \<Rightarrow> [] | Priced i \<Rightarrow> [i])"
  by (induction its rule: priced_items.induct) (auto split: item.splits)

lemma fsum_snoc: "fsum (xs @ [x]) = fadd (fsum xs) x"
  by (simp add: fsum_def)

lemma totals_of_snoc: "totals_of (is @ [i]) = add_to_totals (totals_of is) i"
  by (simp add: totals_of_def add_to_totals_def fsum_snoc)

lemma report_loop_totals:
  assumes "report_loop env tp target hs items tot ev = Inr (items', tot', ev')"
    and "tot = totals_of (priced_items items)"
  shows "tot' = totals_of (priced_items items')"
  using assms
proof (induction hs arbitrary: items tot ev)
  case Nil
  then show ?case by auto
next
  case (Cons h hs)
  from Cons.prems(1) obtain it tot1 ev1 where
    step: "report_holding env tp target tot h = Inr (it, tot1, ev1)" and
    rest: "report_loop env tp target hs (items @ [it]) tot1 (ev @ ev1) = Inr (items', tot', ev')"
    by (auto split: sum.splits)
  have "tot1 = totals_of (priced_items (items @ [it]))"
    using report_holding_cases [OF step] Cons.prems(2)
    by (auto simp: priced_items_snoc totals_of_snoc)
  then show ?case using Cons.IH [OF rest] by simp
qed

lemma report_loop_items:
  assumes "report_loop env tp target hs items tot ev = Inr (items', tot', ev')"
  shows "\<exists>new. items' = items @ new \<and>
           list_all2 (\<lambda>h it. \<exists>t t' e. report_holding env tp target t h = Inr (it, t', e)) hs new"
  using assms
proof (induction hs arbitrary: items tot ev)
  case Nil
  then show ?case by simp
next
  case (Cons h hs)
  from Cons.prems obtain it tot1 ev1 where
    step: "report_holding env tp target tot h = Inr (it, tot1, ev1)" and
    rest: "report_loop env tp target hs (items @ [it]) tot1 (ev @ ev1) = Inr (items', tot', ev')"
    by (auto split: sum.splits)
  from Cons.IH [OF rest] obtain new where
    new: "items' = (items @ [it]) @ new"
      "list_all2 (\<lambda>h it. \<exists>t t' e. report_holding env tp target t h = Inr (it, t', e)) hs new"
    by blast
  have "items' = items @ (it # new)" using new(1) by simp
  moreover have "list_all2 (\<lambda>h it. \<exists>t t' e. report_holding env tp target t h = Inr (it, t', e))
                   (h # hs) (it # new)"
    using step new(2) by auto
  ultimately show ?case by blast
qed

lemma report_holding_code:
  "report_holding env tp target t h = Inr (it, t', e) \<Longrightarrow> item_code it = h_code h"
  by (auto simp: item_code_def dest!: report_holding_cases)

lemma generate_report_loop:
  assumes "generate_report env = Inr (Report out)"
  obtains holdings tpex_all where
    "read_holdings env = Inr holdings" "holdings \<noteq> []"
    "minus_one_day (today env) = Inr (o_target_date out)"
    "fetch_tpex_latest_all env = Inr tpex_all"
    "report_loop env tpex_all (o_target_date out) holdings [] zero_totals [] =
       Inr (o_items out, o_totals out, o_events out)"
    "o_report_date out =
       (case item_dates (o_items out) of [] \<Rightarrow> o_target_date out | d # ds \<Rightarrow> fold max ds d)"
  using assms
  by (auto simp: generate_report_def split: sum.splits if_splits prod.splits list.splits)

text \<open>
  Claim C6. In a report, each of the four totals is the sum, by float additions from
  \<^verbatim>\<open>0.0\<close> in the order of the ledger, of that figure over the entries that have a price;
  every holding has its entry, in order; and the entry of a holding for which neither
  exchange gives a close is the short one, marked \<^verbatim>\<open>No price data\<close>, which is not among
  the entries summed.
\<close>

theorem totals_sum_resolved_only:
  assumes "generate_report env = Inr (Report out)"
    and "read_holdings env = Inr holdings"
    and "fetch_tpex_latest_all env = Inr tpex_all"
  shows "tot_market_value (o_totals out) = fsum (map i_market_value (priced_items (o_items out)))
       \<and> tot_cost (o_totals out) = fsum (map i_cost (priced_items (o_items out)))
       \<and> tot_pnl (o_totals out) = fsum (map i_pnl (priced_items (o_items out)))
       \<and> tot_day_pnl (o_totals out) = fsum (map i_day_pnl (priced_items (o_items out)))
       \<and> map item_code (o_items out) = map h_code holdings
       \<and> (\<forall>k < length holdings. \<forall>q ev.
            resolve_price env tpex_all (o_target_date out) (h_code (holdings ! k)) = Inr (q, ev)
            \<and> q_close q = None \<longrightarrow>
            o_items out ! k =
              NoPrice (h_code (holdings ! k)) (q_name q) (or_dash (q_source q))
                ''No price data'')"
proof -
  from assms(1) obtain hs tp where
    hs: "read_holdings env = Inr hs" and
    tp: "fetch_tpex_latest_all env = Inr tp" and
    loop: "report_loop env tp (o_target_date out) hs [] zero_totals [] =
             Inr (o_items out, o_totals out, o_events out)"
    by (rule generate_report_loop)
  have hs_eq: "hs = holdings" and tp_eq: "tp = tpex_all"
    using hs tp assms(2,3) by simp_all
  have "zero_totals = totals_of (priced_items [])"
    by (simp add: zero_totals_def totals_of_def fsum_def)
  with loop have tot: "o_totals out = totals_of (priced_items (o_items out))"
    by (rule report_loop_totals)
  from report_loop_items [OF loop] have
    all2: "list_all2 (\<lambda>h it. \<exists>t t' e.
             report_holding env tpex_all (o_target_date out) t h = Inr (it, t', e))
           holdings (o_items out)"
    by (simp add: hs_eq tp_eq)
  have codes: "map item_code (o_items out) = map h_code holdings"
    using all2 by (induction rule: list_all2_induct) (auto dest: report_holding_code)
  have unresolved:
    "o_items out ! k =
       NoPrice (h_code (holdings ! k)) (q_name q) (or_dash (q_source q)) ''No price data''"
    if k: "k < length holdings"
      and r: "resolve_price env tpex_all (o_target_date out) (h_code (holdings ! k)) = Inr (q, ev)"
      and c: "q_close q = None"
    for k q ev
  proof -
    from all2 k obtain t t' e where
      "report_holding env tpex_all (o_target_date out) t (holdings ! k) =
         Inr (o_items out ! k, t', e)"
      by (auto simp: list_all2_conv_all_nth)
    then show ?thesis
      using report_holding_no_price [OF r c, of t] by simp
  qed
  have t1: "tot_market_value (o_totals out) = fsum (map i_market_value (priced_items (o_items out)))"
    by (subst tot) (simp add: totals_of_def)
  have t2: "tot_cost (o_totals out) = fsum (map i_cost (priced_items (o_items out)))"
    by (subst tot) (simp add: totals_of_def)
  have t3: "tot_pnl (o_totals out) = fsum (map i_pnl (priced_items (o_items out)))"
    by (subst tot) (simp add: totals_of_def)
  have t4: "tot_day_pnl (o_totals out) = fsum (map i_day_pnl (priced_items (o_items out)))"
    by (subst tot) (simp add: totals_of_def)
  show ?thesis using t1 t2 t3 t4 codes unresolved by blast
qed

text \<open>
  The first market: 2317 and 2330 from the first exchange, 6488 from the second, 9999 from
  neither.
\<close>

theorem totals_sum_resolved_only_witness:
  "generate_report demo_env = Inr (Report demo_out)
   \<and> tot_market_value (o_totals demo_out) = 2040500
   \<and> fsum [100000, 1420000, 520500] = 2040500
   \<and> tot_cost (o_totals demo_out) = 1590000
   \<and> fsum [90000, 1000000, 500000] = 1590000
   \<and> tot_pnl (o_totals demo_out) = 450500
   \<and> fsum [10000, 420000, 20500] = 450500
   \<and> tot_day_pnl (o_totals demo_out) = 20000
   \<and> fsum [0, 20000, 0] = 20000
   \<and> map item_code (o_items demo_out) = [''2317'', ''2330'', ''6488'', ''9999'']
   \<and> o_items demo_out ! 3 = NoPrice ''9999'' None ''-'' ''No price data''"
proof -
  note T = totals_sum_resolved_only [OF demo_report demo_holdings demo_tpex]
  have p: "priced_items (o_items demo_out) =
           [\<lparr>i_code = ''2317'', i_name = None, i_source = Some ''TWSE'',
                 i_date = Some (2024, 3, 4), i_close = 100, i_change = Some 0,
                 i_day_pct = Some 0, i_lots = 1, i_avg_cost = 90,
                 i_market_value = 100000, i_cost = 90000, i_pnl = 10000, i_day_pnl = 0,
                 i_news = []\<rparr>,
            \<lparr>i_code = ''2330'', i_name = Some ''TSMC'', i_source = Some ''TWSE'',
                 i_date = Some (2024, 3, 5), i_close = 710, i_change = Some 10,
                 i_day_pct = Some (6433713753386423 / 4503599627370496), i_lots = 2,
                 i_avg_cost = 500,
                 i_market_value = 1420000, i_cost = 1000000, i_pnl = 420000,
                 i_day_pnl = 20000, i_news = []\<rparr>,
            \<lparr>i_code = ''6488'', i_name = Some ''GW'', i_source = Some ''TPEx'',
                 i_date = None, i_close = 1041 / 2, i_change = None,
                 i_day_pct = None, i_lots = 1, i_avg_cost = 500,
                 i_market_value = 520500, i_cost = 500000, i_pnl = 20500, i_day_pnl = 0,
                 i_news = []\<rparr>]"
    by (simp add: demo_out_def)
  have t: "tot_market_value (o_totals demo_out) = 2040500" "tot_cost (o_totals demo_out) = 1590000"
    "tot_pnl (o_totals demo_out) = 450500" "tot_day_pnl (o_totals demo_out) = 20000"
    by (simp_all add: demo_out_def)
  have s1: "fsum [100000, 1420000, 520500] = 2040500"
    using T [THEN conjunct1] by (simp add: p t)
  have s2: "fsum [90000, 1000000, 500000] = 1590000"
    using T [THEN conjunct2, THEN conjunct1] by (simp add: p t)
  have s3: "fsum [10000, 420000, 20500] = 450500"
    using T [THEN conjunct2, THEN conjunct2, THEN conjunct1] by (simp add: p t)
  have s4: "fsum [0, 20000, 0] = 20000"
    using T [THEN conjunct2, THEN conjunct2, THEN conjunct2, THEN conjunct1] by (simp add: p t)
  have codes: "map item_code (o_items demo_out) = [''2317'', ''2330'', ''6488'', ''9999'']"
    using T [THEN conjunct2, THEN conjunct2, THEN conjunct2, THEN conjunct2, THEN conjunct1]
    by simp
  have un: "o_items demo_out ! 3 = NoPrice ''9999'' None ''-'' ''No price data''"
    using T [THEN conjunct2, THEN conjunct2, THEN conjunct2, THEN conjunct2, THEN conjunct2,
             rule_format, of 3] demo_resolve_9999
    by (simp add: demo_out_def or_dash_def)
  show ?thesis using demo_report t s1 s2 s3 s4 codes un by simp
qed




end
